theory Spec2Isabelle
  imports Main "HOL-Library.Sublist"
begin

section \<open>Color profiles and the renderer (bubbletea/tea.go)\<close>

text \<open>
  \<open>termenv.Profile\<close> is an integer enumeration whose constants are declared in the order
  TrueColor, ANSI256, ANSI, Ascii (values 0 to 3). The Go comparison \<open>a > b\<close> on profiles
  compares these integers, so the numerically greatest profile, Ascii, is the one with the
  fewest colors.
\<close>

datatype Profile = TrueColor | ANSI256 | ANSI | Ascii

fun profile_int :: "Profile \<Rightarrow> nat" where
  "profile_int TrueColor = 0"
| "profile_int ANSI256 = 1"
| "profile_int ANSI = 2"
| "profile_int Ascii = 3"

definition profileNames :: "string list" where
  "profileNames = [''TrueColor'', ''ANSI256'', ''ANSI'', ''Ascii'']"

datatype panic = IndexOutOfRange nat

text \<open>Indexing the fixed-size array \<open>profileNames\<close>; Go panics out of range.\<close>

definition profileNames_at :: "nat \<Rightarrow> panic + string" where
  "profileNames_at i = (if i < length profileNames then Inr (profileNames ! i) else Inl (IndexOutOfRange i))"

text \<open>
  The session context is a key-value store holding values of any type; the type assertion
  \<open>.(termenv.Profile)\<close> succeeds only on a stored profile.
\<close>

datatype ctx_key = minColorProfileKey | OtherKey string

datatype ctx_value = ProfileValue Profile | OtherValue string

record Renderer =
  colorProfile :: Profile

text \<open>
  The part of an \<open>ssh.Session\<close> that this file touches: the context values, the
  bytes written to the session so far, the color profile that \<open>newRenderer\<close> detects
  for the client (the helper lives in a platform file outside this source file, so its
  result is a field of the session here), and the third result of \<open>s.Pty()\<close>, whether a
  pseudo-terminal was allocated.
\<close>

record Session =
  ctx_values :: "ctx_key \<rightharpoonup> ctx_value"
  written :: string
  client_profile :: Profile
  pty_ok :: bool

definition newRenderer :: "Session \<Rightarrow> Renderer" where
  "newRenderer s = \<lparr>colorProfile = client_profile s\<rparr>"

definition quoted :: "string \<Rightarrow> string" where
  "quoted x = [CHR 0x22] @ x @ [CHR 0x22]"

text \<open>The text produced by the format string of the warning (\<open>%q\<close> quotes its argument).\<close>

definition warning_line :: "string \<Rightarrow> string \<Rightarrow> string" where
  "warning_line a b =
     ''Warning: Client's terminal is '' @ quoted a @ '', forcing '' @ quoted b @ [CHR 0x0D, CHR 0x0A]"

definition lookup_profile :: "Session \<Rightarrow> Profile" where
  "lookup_profile s =
     (case ctx_values s minColorProfileKey of
        Some (ProfileValue cp) \<Rightarrow> cp
      | _ \<Rightarrow> Ascii)"

definition MakeRenderer :: "Session \<Rightarrow> panic + (Renderer \<times> Session)" where
  "MakeRenderer s =
     (let cp = lookup_profile s;
          r = newRenderer s
      in if profile_int (colorProfile r) > profile_int cp
         then (case profileNames_at (profile_int (colorProfile r)) of
                 Inl e \<Rightarrow> Inl e
               | Inr a \<Rightarrow>
                   (case profileNames_at (profile_int cp) of
                      Inl e \<Rightarrow> Inl e
                    | Inr b \<Rightarrow>
                        Inr (r\<lparr>colorProfile := cp\<rparr>,
                             s\<lparr>written := written s @ warning_line a b\<rparr>)))
         else Inr (r, s))"

text \<open>
  The order of capabilities as the specification words it: ascending
  Ascii < ANSI < ANSI256 < TrueColor.
\<close>

fun spec_capability_rank :: "Profile \<Rightarrow> nat" where
  "spec_capability_rank Ascii = 0"
| "spec_capability_rank ANSI = 1"
| "spec_capability_rank ANSI256 = 2"
| "spec_capability_rank TrueColor = 3"

definition spec_capability_min :: "Profile \<Rightarrow> Profile \<Rightarrow> Profile" where
  "spec_capability_min c f = (if spec_capability_rank c \<le> spec_capability_rank f then c else f)"

definition spec_capability_max :: "Profile \<Rightarrow> Profile \<Rightarrow> Profile" where
  "spec_capability_max c f = (if spec_capability_rank c \<le> spec_capability_rank f then f else c)"

section \<open>Environment lookup\<close>

text \<open>\<open>strings.HasPrefix\<close> of the Go standard library.\<close>

definition HasPrefix :: "string \<Rightarrow> string \<Rightarrow> bool" where
  "HasPrefix s p = (length s \<ge> length p \<and> take (length p) s = p)"

type_synonym sshEnviron = "string list"

definition Environ :: "sshEnviron \<Rightarrow> string list" where
  "Environ e = e"

fun Getenv :: "sshEnviron \<Rightarrow> string \<Rightarrow> string" where
  "Getenv [] k = ''''"
| "Getenv (v # e) k =
     (if HasPrefix v (k @ ''='') then drop (length k + 1) v else Getenv e k)"

section \<open>The middleware\<close>

text \<open>
  \<open>newDefaultProgramHandler\<close> wraps a declarative handler, one returning a model (or nil)
  and options, into a program handler. \<open>makeOpts\<close> lives in a platform file and is a
  parameter here.
\<close>

datatype ('m, 'o) Program = NewProgram 'm "'o list"

definition newDefaultProgramHandler ::
  "(Session \<Rightarrow> 'o list) \<Rightarrow> (Session \<Rightarrow> 'm option \<times> 'o list) \<Rightarrow> Session \<Rightarrow> ('m, 'o) Program option" where
  "newDefaultProgramHandler makeOpts bth s =
     (case bth s of
        (None, opts) \<Rightarrow> None
      | (Some m, opts) \<Rightarrow> Some (NewProgram m (opts @ makeOpts s)))"

record Window =
  Width :: int
  Height :: int

record WindowSizeMsg =
  MsgWidth :: int
  MsgHeight :: int

definition to_msg :: "Window \<Rightarrow> WindowSizeMsg" where
  "to_msg w = \<lparr>MsgWidth = Width w, MsgHeight = Height w\<rparr>"

text \<open>The zero value received from a closed channel.\<close>

definition zero_Window :: Window where
  "zero_Window = \<lparr>Width = 0, Height = 0\<rparr>"

text \<open>
  What happens in a session, in the order it happens: the calls the handler and its relay
  make on the session, on the program and on their surroundings, and what the
  surroundings do to the session. The program, the logger, \<open>wish.Fatalln\<close> and the next
  handler are outside this file; a call on them is recorded, and it returns. Errors of
  \<open>p.Run\<close> are named by their text.
\<close>

datatype event =
    EvSetValue Profile  \<comment> \<open>\<open>s.Context().SetValue(minColorProfileKey, p)\<close>\<close>
  | EvFatalln string  \<comment> \<open>\<open>wish.Fatalln(s, ...)\<close>\<close>
  | EvFactory  \<comment> \<open>\<open>bth(s)\<close>\<close>
  | EvNext  \<comment> \<open>\<open>h(s)\<close>\<close>
  | EvSpawnRelay  \<comment> \<open>\<open>go func() ...\<close>\<close>
  | EvRunCall  \<comment> \<open>\<open>p.Run()\<close> is called\<close>
  | EvRunReturn "string option"  \<comment> \<open>\<open>p.Run()\<close> returns\<close>
  | EvLogError string  \<comment> \<open>\<open>log.Error("app exit with error", "error", err)\<close>\<close>
  | EvKill  \<comment> \<open>\<open>p.Kill()\<close>\<close>
  | EvCancel  \<comment> \<open>\<open>cancel()\<close>\<close>
  | EvQuit  \<comment> \<open>\<open>p.Quit()\<close>\<close>
  | EvSend WindowSizeMsg  \<comment> \<open>\<open>p.Send(tea.WindowSizeMsg{...})\<close>\<close>
  | EvResize Window  \<comment> \<open>a window change is put on the feed\<close>
  | EvFeedClosed  \<comment> \<open>the feed is closed\<close>
  | EvParentCancel  \<comment> \<open>the session's context is cancelled\<close>

text \<open>
  Where the handler's own task stands: each constructor is the statement about to be
  executed (line numbers of tea.go in comments); \<open>PcRunning\<close> is the task blocked inside
  \<open>p.Run()\<close>.
\<close>

datatype main_pc =
    PcSetValue  \<comment> \<open>71\<close>
  | PcPty  \<comment> \<open>72 to 76\<close>
  | PcFactory  \<comment> \<open>77, 78\<close>
  | PcDecline  \<comment> \<open>79, 80\<close>
  | PcSpawn  \<comment> \<open>82, 83\<close>
  | PcRun  \<comment> \<open>94, the call\<close>
  | PcRunning
  | PcRunReturned "string option"  \<comment> \<open>94 to 96, the test of err\<close>
  | PcKill  \<comment> \<open>100\<close>
  | PcCancel  \<comment> \<open>101\<close>
  | PcNext  \<comment> \<open>102\<close>
  | PcDone

datatype relay_pc = RelayNotStarted | RelayLoop | RelayReturned

record 'p state =
  sess :: Session
  prog :: "'p option"
  pc :: main_pc
  relay :: relay_pc
  winch :: "Window list"
  winch_closed :: bool
  cancel_called :: bool
  parent_done :: bool
  trace :: "event list"

text \<open>
  The two tasks of a session and its surroundings interleave. A schedule is the list of
  who moves next; a move that is not possible in the current state (a blocked task, a
  \<open>select\<close> case that is not ready) leaves the state as it is.
\<close>

datatype action =
    MainStep  \<comment> \<open>the handler's task executes its next statement\<close>
  | RelayDone  \<comment> \<open>the relay's select takes \<open>ctx.Done()\<close>\<close>
  | RelayRecv  \<comment> \<open>the relay's select takes \<open>windowChanges\<close>\<close>
  | RunReturns "string option"  \<comment> \<open>\<open>p.Run()\<close> returns, with an error or nil\<close>
  | Resize Window  \<comment> \<open>the client's terminal changes size\<close>
  | CloseFeed  \<comment> \<open>the transport closes the feed\<close>
  | ParentCancel  \<comment> \<open>the session's context is cancelled\<close>

definition emit :: "event \<Rightarrow> 'p state \<Rightarrow> 'p state" where
  "emit e st = st\<lparr>trace := trace st @ [e]\<rparr>"

definition SetValue :: "ctx_key \<Rightarrow> ctx_value \<Rightarrow> Session \<Rightarrow> Session" where
  "SetValue k v s = s\<lparr>ctx_values := (ctx_values s)(k \<mapsto> v)\<rparr>"

definition main_step :: "(Session \<Rightarrow> 'p option) \<Rightarrow> Profile \<Rightarrow> 'p state \<Rightarrow> 'p state" where
  "main_step bth p st =
     (case pc st of
        PcSetValue \<Rightarrow>
          emit (EvSetValue p)
            (st\<lparr>sess := SetValue minColorProfileKey (ProfileValue p) (sess st), pc := PcPty\<rparr>)
      | PcPty \<Rightarrow>
          if \<not> pty_ok (sess st)
          then emit (EvFatalln ''no active terminal, skipping'') (st\<lparr>pc := PcDone\<rparr>)
          else st\<lparr>pc := PcFactory\<rparr>
      | PcFactory \<Rightarrow>
          (case bth (sess st) of
             None \<Rightarrow> emit EvFactory (st\<lparr>prog := None, pc := PcDecline\<rparr>)
           | Some q \<Rightarrow> emit EvFactory (st\<lparr>prog := Some q, pc := PcSpawn\<rparr>))
      | PcDecline \<Rightarrow> emit EvNext (st\<lparr>pc := PcDone\<rparr>)
      | PcSpawn \<Rightarrow> emit EvSpawnRelay (st\<lparr>relay := RelayLoop, pc := PcRun\<rparr>)
      | PcRun \<Rightarrow> emit EvRunCall (st\<lparr>pc := PcRunning\<rparr>)
      | PcRunning \<Rightarrow> st
      | PcRunReturned err \<Rightarrow>
          (case err of
             None \<Rightarrow> st\<lparr>pc := PcKill\<rparr>
           | Some e \<Rightarrow> emit (EvLogError e) (st\<lparr>pc := PcKill\<rparr>))
      | PcKill \<Rightarrow> emit EvKill (st\<lparr>pc := PcCancel\<rparr>)
      | PcCancel \<Rightarrow> emit EvCancel (st\<lparr>cancel_called := True, pc := PcNext\<rparr>)
      | PcNext \<Rightarrow> emit EvNext (st\<lparr>pc := PcDone\<rparr>)
      | PcDone \<Rightarrow> st)"

text \<open>
  The relay's context is derived from the session's: it is done once \<open>cancel()\<close> was
  called or the session's context is done.
\<close>

definition ctx_done :: "'p state \<Rightarrow> bool" where
  "ctx_done st = (cancel_called st \<or> parent_done st)"

definition relay_done :: "'p state \<Rightarrow> 'p state" where
  "relay_done st =
     (if relay st = RelayLoop \<and> ctx_done st
      then emit EvQuit (st\<lparr>relay := RelayReturned\<rparr>)
      else st)"

text \<open>
  A receive is ready when a value is queued or the channel is closed; from a closed,
  drained channel it yields the zero value.
\<close>

definition relay_recv :: "'p state \<Rightarrow> 'p state" where
  "relay_recv st =
     (if relay st = RelayLoop
      then (case winch st of
              w # ws \<Rightarrow> emit (EvSend (to_msg w)) (st\<lparr>winch := ws\<rparr>)
            | [] \<Rightarrow> if winch_closed st then emit (EvSend (to_msg zero_Window)) st else st)
      else st)"

definition run_returns :: "string option \<Rightarrow> 'p state \<Rightarrow> 'p state" where
  "run_returns err st =
     (if pc st = PcRunning then emit (EvRunReturn err) (st\<lparr>pc := PcRunReturned err\<rparr>) else st)"

definition resize :: "Window \<Rightarrow> 'p state \<Rightarrow> 'p state" where
  "resize w st =
     (if winch_closed st then st else emit (EvResize w) (st\<lparr>winch := winch st @ [w]\<rparr>))"

definition close_feed :: "'p state \<Rightarrow> 'p state" where
  "close_feed st =
     (if winch_closed st then st else emit EvFeedClosed (st\<lparr>winch_closed := True\<rparr>))"

definition parent_cancel :: "'p state \<Rightarrow> 'p state" where
  "parent_cancel st =
     (if parent_done st then st else emit EvParentCancel (st\<lparr>parent_done := True\<rparr>))"

fun step :: "(Session \<Rightarrow> 'p option) \<Rightarrow> Profile \<Rightarrow> 'p state \<Rightarrow> action \<Rightarrow> 'p state" where
  "step bth p st MainStep = main_step bth p st"
| "step bth p st RelayDone = relay_done st"
| "step bth p st RelayRecv = relay_recv st"
| "step bth p st (RunReturns err) = run_returns err st"
| "step bth p st (Resize w) = resize w st"
| "step bth p st CloseFeed = close_feed st"
| "step bth p st ParentCancel = parent_cancel st"

definition init :: "Session \<Rightarrow> 'p state" where
  "init s = \<lparr>sess = s, prog = None, pc = PcSetValue, relay = RelayNotStarted, winch = [],
     winch_closed = False, cancel_called = False, parent_done = False, trace = []\<rparr>"

text \<open>
  The session handler that \<open>MiddlewareWithProgramHandler bth p\<close> returns, run on the
  session \<open>s\<close> under a schedule: the state it has reached when the schedule is used up.
\<close>

definition MiddlewareWithProgramHandler ::
  "(Session \<Rightarrow> 'p option) \<Rightarrow> Profile \<Rightarrow> Session \<Rightarrow> action list \<Rightarrow> 'p state" where
  "MiddlewareWithProgramHandler bth p s acts = foldl (step bth p) (init s) acts"

definition Middleware ::
  "(Session \<Rightarrow> 'o list) \<Rightarrow> (Session \<Rightarrow> 'm option \<times> 'o list) \<Rightarrow> Session \<Rightarrow> action list
     \<Rightarrow> ('m, 'o) Program state" where
  "Middleware makeOpts bth = MiddlewareWithProgramHandler (newDefaultProgramHandler makeOpts bth) Ascii"

definition MiddlewareWithColorProfile ::
  "(Session \<Rightarrow> 'o list) \<Rightarrow> (Session \<Rightarrow> 'm option \<times> 'o list) \<Rightarrow> Profile \<Rightarrow> Session
     \<Rightarrow> action list \<Rightarrow> ('m, 'o) Program state" where
  "MiddlewareWithColorProfile makeOpts bth p =
     MiddlewareWithProgramHandler (newDefaultProgramHandler makeOpts bth) p"

text \<open>Observations of a trace.\<close>

definition occurrences :: "event \<Rightarrow> event list \<Rightarrow> nat" where
  "occurrences e tr = length (filter (\<lambda>x. x = e) tr)"



fun is_run_return :: "event \<Rightarrow> bool" where
  "is_run_return (EvRunReturn err) = True"
| "is_run_return e = False"

text \<open>
  A trace cut at the first return of \<open>p.Run()\<close>: what happened before it, and from it on
  (empty if \<open>p.Run()\<close> has not returned).
\<close>

definition before_run_return :: "event list \<Rightarrow> event list" where
  "before_run_return tr = takeWhile (\<lambda>e. \<not> is_run_return e) tr"

text \<open>What happened before the first store of \<open>p\<close> on the context.\<close>

definition before_set_value :: "Profile \<Rightarrow> event list \<Rightarrow> event list" where
  "before_set_value p tr = takeWhile (\<lambda>e. e \<noteq> EvSetValue p) tr"


text \<open>The events the handler's own task makes, in the order it makes them.\<close>

fun is_main_event :: "event \<Rightarrow> bool" where
  "is_main_event (EvSend m) = False"
| "is_main_event EvQuit = False"
| "is_main_event (EvResize w) = False"
| "is_main_event EvFeedClosed = False"
| "is_main_event EvParentCancel = False"
| "is_main_event e = True"

definition main_events :: "event list \<Rightarrow> event list" where
  "main_events tr = filter is_main_event tr"

text \<open>
  What the handler's task has done when \<open>p.Run()\<close> has returned \<open>err\<close> and the result was
  tested.
\<close>

definition ran_events :: "Profile \<Rightarrow> string option \<Rightarrow> event list" where
  "ran_events p err =
     [EvSetValue p, EvFactory, EvSpawnRelay, EvRunCall, EvRunReturn err]
       @ (case err of None \<Rightarrow> [] | Some e \<Rightarrow> [EvLogError e])"

text \<open>
  The invariant of the handler's task: at each statement, the events it has made so far.
  \<open>pty\<close> says that the session has a terminal, \<open>dec\<close> that the program handler returns
  nil for it.
\<close>

fun main_inv_pc :: "Profile \<Rightarrow> bool \<Rightarrow> bool \<Rightarrow> main_pc \<Rightarrow> event list \<Rightarrow> bool" where
  "main_inv_pc p pty dec PcSetValue m = (m = [])"
| "main_inv_pc p pty dec PcPty m = (m = [EvSetValue p])"
| "main_inv_pc p pty dec PcFactory m = (pty \<and> m = [EvSetValue p])"
| "main_inv_pc p pty dec PcDecline m = (pty \<and> dec \<and> m = [EvSetValue p, EvFactory])"
| "main_inv_pc p pty dec PcSpawn m = (pty \<and> \<not> dec \<and> m = [EvSetValue p, EvFactory])"
| "main_inv_pc p pty dec PcRun m = (pty \<and> \<not> dec \<and> m = [EvSetValue p, EvFactory, EvSpawnRelay])"
| "main_inv_pc p pty dec PcRunning m =
     (pty \<and> \<not> dec \<and> m = [EvSetValue p, EvFactory, EvSpawnRelay, EvRunCall])"
| "main_inv_pc p pty dec (PcRunReturned err) m =
     (pty \<and> \<not> dec \<and> m = [EvSetValue p, EvFactory, EvSpawnRelay, EvRunCall, EvRunReturn err])"
| "main_inv_pc p pty dec PcKill m = (pty \<and> \<not> dec \<and> (\<exists>err. m = ran_events p err))"
| "main_inv_pc p pty dec PcCancel m = (pty \<and> \<not> dec \<and> (\<exists>err. m = ran_events p err @ [EvKill]))"
| "main_inv_pc p pty dec PcNext m =
     (pty \<and> \<not> dec \<and> (\<exists>err. m = ran_events p err @ [EvKill, EvCancel]))"
| "main_inv_pc p pty dec PcDone m =
     (if \<not> pty then m = [EvSetValue p, EvFatalln ''no active terminal, skipping'']
      else if dec then m = [EvSetValue p, EvFactory, EvNext]
      else (\<exists>err. m = ran_events p err @ [EvKill, EvCancel, EvNext]))"

definition main_inv :: "(Session \<Rightarrow> 'p option) \<Rightarrow> Profile \<Rightarrow> Session \<Rightarrow> 'p state \<Rightarrow> bool" where
  "main_inv bth p s st =
     (sess st = (if pc st = PcSetValue then s else SetValue minColorProfileKey (ProfileValue p) s)
      \<and> (prog st = None
           \<or> pty_ok s \<and> prog st = bth (SetValue minColorProfileKey (ProfileValue p) s))
      \<and> main_inv_pc p (pty_ok s)
            (bth (SetValue minColorProfileKey (ProfileValue p) s) = None)
            (pc st) (main_events (trace st)))"

text \<open>
  Invariants of the relay, of the flags and of the feed, each a relation between the state
  and the trace.
\<close>

fun before_spawn :: "main_pc \<Rightarrow> bool" where
  "before_spawn PcSetValue = True"
| "before_spawn PcPty = True"
| "before_spawn PcFactory = True"
| "before_spawn PcDecline = True"
| "before_spawn PcSpawn = True"
| "before_spawn pcv = False"

definition relay_inv :: "'p state \<Rightarrow> bool" where
  "relay_inv st =
     ((before_spawn (pc st) \<longrightarrow> relay st = RelayNotStarted)
      \<and> (relay st = RelayNotStarted \<longleftrightarrow> EvSpawnRelay \<notin> set (trace st))
      \<and> occurrences EvQuit (trace st) = (if relay st = RelayReturned then 1 else 0)
      \<and> (relay st = RelayReturned \<longrightarrow> ctx_done st))"

definition flags_inv :: "'p state \<Rightarrow> bool" where
  "flags_inv st =
     ((cancel_called st \<longleftrightarrow> EvCancel \<in> set (trace st))
      \<and> (parent_done st \<longleftrightarrow> EvParentCancel \<in> set (trace st))
      \<and> (winch_closed st \<longleftrightarrow> EvFeedClosed \<in> set (trace st))
      \<and> (prog st \<noteq> None \<longrightarrow> EvFactory \<in> set (trace st)))"


text \<open>Sessions and handlers to evaluate the model on.\<close>

definition terminal_session :: Session where
  "terminal_session =
     \<lparr>ctx_values = Map.empty, written = [], client_profile = TrueColor, pty_ok = True\<rparr>"

definition plain_session :: Session where
  "plain_session =
     \<lparr>ctx_values = Map.empty, written = [], client_profile = TrueColor, pty_ok = False\<rparr>"

definition accepting :: "Session \<Rightarrow> nat option" where
  "accepting s = Some 0"

definition declining :: "Session \<Rightarrow> nat option" where
  "declining s = None"

section \<open>Facts about the model\<close>

lemma run_snoc:
  "MiddlewareWithProgramHandler bth p s (acts @ [a]) = step bth p (MiddlewareWithProgramHandler bth p s acts) a"
  by (simp add: MiddlewareWithProgramHandler_def)

lemma main_events_snoc [simp]:
  "main_events (tr @ [e]) = (if is_main_event e then main_events tr @ [e] else main_events tr)"
  by (simp add: main_events_def)

lemma SetValue_pty [simp]: "pty_ok (SetValue k v s) = pty_ok s"
  by (simp add: SetValue_def)

lemma main_inv_init: "main_inv bth p s (init s)"
  by (simp add: main_inv_def init_def main_events_def)

lemma main_inv_main_step:
  assumes "main_inv bth p s st"
  shows "main_inv bth p s (main_step bth p st)"
proof (cases "pc st")
  case (PcRunReturned err)
  show ?thesis
  proof (cases err)
    case None
    with PcRunReturned assms show ?thesis
      by (auto simp: main_inv_def main_step_def emit_def ran_events_def intro!: exI[of _ None])
  next
    case (Some e)
    with PcRunReturned assms show ?thesis
      by (auto simp: main_inv_def main_step_def emit_def ran_events_def intro!: exI[of _ "Some e"])
  qed
qed (use assms in \<open>auto simp: main_inv_def main_step_def emit_def split: option.splits\<close>)

lemma main_inv_step:
  assumes "main_inv bth p s st"
  shows "main_inv bth p s (step bth p st a)"
proof (cases a)
  case MainStep
  then show ?thesis using assms by (simp add: main_inv_main_step)
next
  case RelayDone
  then show ?thesis using assms by (simp add: main_inv_def relay_done_def emit_def)
next
  case RelayRecv
  then show ?thesis using assms
    by (simp add: main_inv_def relay_recv_def emit_def split: list.splits)
next
  case (RunReturns err)
  then show ?thesis using assms by (auto simp: main_inv_def run_returns_def emit_def)
next
  case (Resize w)
  then show ?thesis using assms by (simp add: main_inv_def resize_def emit_def)
next
  case CloseFeed
  then show ?thesis using assms by (simp add: main_inv_def close_feed_def emit_def)
next
  case ParentCancel
  then show ?thesis using assms by (simp add: main_inv_def parent_cancel_def emit_def)
qed

lemma main_inv_run: "main_inv bth p s (MiddlewareWithProgramHandler bth p s acts)"
proof (induction acts rule: rev_induct)
  case Nil
  show ?case by (simp add: MiddlewareWithProgramHandler_def main_inv_init)
next
  case (snoc a acts)
  then show ?case by (simp add: run_snoc main_inv_step)
qed

lemma occurrences_snoc [simp]:
  "occurrences e (tr @ [x]) = (if x = e then Suc (occurrences e tr) else occurrences e tr)"
  by (simp add: occurrences_def)

lemma occurrences_Nil [simp]: "occurrences e [] = 0"
  by (simp add: occurrences_def)

lemma occurrences_Cons [simp]:
  "occurrences e (x # tr) = (if x = e then Suc (occurrences e tr) else occurrences e tr)"
  by (simp add: occurrences_def)



lemma mem_main_events: "is_main_event e \<Longrightarrow> e \<in> set (main_events tr) \<longleftrightarrow> e \<in> set tr"
  by (auto simp: main_events_def)

lemma occurrences_main_events:
  "is_main_event e \<Longrightarrow> occurrences e (main_events tr) = occurrences e tr"
  by (induction tr) (auto simp: main_events_def)

lemma main_events_takeWhile:
  assumes "\<And>e. \<not> P e \<Longrightarrow> is_main_event e"
  shows "main_events (takeWhile P tr) = takeWhile P (main_events tr)"
  using assms by (induction tr) (auto simp: main_events_def)

lemma main_events_before_run_return:
  "main_events (before_run_return tr) = before_run_return (main_events tr)"
  unfolding before_run_return_def
  by (rule main_events_takeWhile) (case_tac e, simp_all)

lemma main_events_before_set_value:
  "main_events (before_set_value p tr) = before_set_value p (main_events tr)"
  unfolding before_set_value_def
  by (rule main_events_takeWhile) simp

lemma occurrences_0_iff: "occurrences e tr = 0 \<longleftrightarrow> e \<notin> set tr"
  by (induction tr) auto

lemma relay_inv_step:
  assumes "relay_inv st"
  shows "relay_inv (step bth p st a)"
proof (cases a)
  case MainStep
  then show ?thesis using assms
    by (cases "pc st")
       (auto simp: relay_inv_def main_step_def emit_def ctx_done_def split: option.splits)
next
  case RelayDone
  then show ?thesis using assms
    by (auto simp: relay_inv_def relay_done_def emit_def ctx_done_def)
next
  case RelayRecv
  then show ?thesis using assms
    by (auto simp: relay_inv_def relay_recv_def emit_def ctx_done_def split: list.splits)
next
  case (RunReturns err)
  then show ?thesis using assms
    by (auto simp: relay_inv_def run_returns_def emit_def ctx_done_def)
next
  case (Resize w)
  then show ?thesis using assms
    by (auto simp: relay_inv_def resize_def emit_def ctx_done_def)
next
  case CloseFeed
  then show ?thesis using assms
    by (auto simp: relay_inv_def close_feed_def emit_def ctx_done_def)
next
  case ParentCancel
  then show ?thesis using assms
    by (auto simp: relay_inv_def parent_cancel_def emit_def ctx_done_def)
qed

lemma relay_inv_run: "relay_inv (MiddlewareWithProgramHandler bth p s acts)"
proof (induction acts rule: rev_induct)
  case Nil
  show ?case by (simp add: MiddlewareWithProgramHandler_def relay_inv_def init_def)
next
  case (snoc a acts)
  then show ?case by (simp add: run_snoc relay_inv_step)
qed

lemma flags_inv_step:
  assumes "flags_inv st"
  shows "flags_inv (step bth p st a)"
proof (cases a)
  case MainStep
  then show ?thesis using assms
    by (cases "pc st")
       (auto simp: flags_inv_def main_step_def emit_def split: option.splits)
next
  case RelayRecv
  then show ?thesis using assms
    by (auto simp: flags_inv_def relay_recv_def emit_def split: list.splits)
qed (use assms in \<open>auto simp: flags_inv_def relay_done_def run_returns_def resize_def
       close_feed_def parent_cancel_def emit_def\<close>)

lemma flags_inv_run: "flags_inv (MiddlewareWithProgramHandler bth p s acts)"
proof (induction acts rule: rev_induct)
  case Nil
  show ?case by (simp add: MiddlewareWithProgramHandler_def flags_inv_def init_def)
next
  case (snoc a acts)
  then show ?case by (simp add: run_snoc flags_inv_step)
qed




lemma profile_int_less: "profile_int x < length profileNames"
  by (cases x) (simp_all add: profileNames_def)

lemma profileNames_at_profile:
  "profileNames_at (profile_int x) = Inr (profileNames ! profile_int x)"
  by (simp add: profileNames_at_def profile_int_less)

lemma profile_int_rank:
  "profile_int a > profile_int b \<longleftrightarrow> spec_capability_rank a < spec_capability_rank b"
  by (cases a; cases b) simp_all

lemma spec_capability_rank_inj: "spec_capability_rank a = spec_capability_rank b \<Longrightarrow> a = b"
  by (cases a; cases b) simp_all

section \<open>The renderer's color profile\<close>

text \<open>
  Claim C2, as amended. The profile stored by the middleware is a minimum, as the comments
  of \<open>MiddlewareWithColorProfile\<close> and \<open>MiddlewareWithProgramHandler\<close> say ("If the
  client's color profile has less colors than p, p will be forced"): for a client profile
  \<open>c\<close> and a stored profile \<open>f\<close>, \<open>MakeRenderer\<close> returns a renderer whose profile is the
  maximum of \<open>c\<close> and \<open>f\<close> in the ascending order Ascii < ANSI < ANSI256 < TrueColor, and
  it writes the one-line warning, naming \<open>c\<close> and then \<open>f\<close>, exactly when \<open>c\<close> is below \<open>f\<close>
  in that order; otherwise the session is left as it was.
\<close>

theorem MakeRenderer_forces_declared_profile:
  assumes "ctx_values s minColorProfileKey = Some (ProfileValue f)"
    and "client_profile s = c"
  shows "MakeRenderer s =
           Inr (\<lparr>colorProfile = spec_capability_max c f\<rparr>,
                if spec_capability_rank c < spec_capability_rank f
                then s\<lparr>written := written s
                       @ warning_line (profileNames ! profile_int c) (profileNames ! profile_int f)\<rparr>
                else s)"
proof (cases "spec_capability_rank c < spec_capability_rank f")
  case True
  with assms show ?thesis
    by (simp add: MakeRenderer_def lookup_profile_def newRenderer_def profileNames_at_profile
        profile_int_rank spec_capability_max_def Let_def)
next
  case False
  with assms show ?thesis
    by (auto simp: MakeRenderer_def lookup_profile_def newRenderer_def profile_int_rank
        spec_capability_max_def Let_def dest: spec_capability_rank_inj)
qed

text \<open>A client announcing ANSI under a stored ANSI256 is raised to ANSI256 and warned.\<close>

theorem MakeRenderer_forces_declared_profile_witness:
  "MakeRenderer (terminal_session\<lparr>ctx_values := [minColorProfileKey \<mapsto> ProfileValue ANSI256],
                                  client_profile := ANSI\<rparr>)
     = Inr (\<lparr>colorProfile = ANSI256\<rparr>,
            terminal_session\<lparr>ctx_values := [minColorProfileKey \<mapsto> ProfileValue ANSI256],
                             client_profile := ANSI,
                             written := ''Warning: Client's terminal is '' @ quoted ''ANSI''
                               @ '', forcing '' @ quoted ''ANSI256'' @ [CHR 0x0D, CHR 0x0A]\<rparr>)"
  using MakeRenderer_forces_declared_profile
    [of "terminal_session\<lparr>ctx_values := [minColorProfileKey \<mapsto> ProfileValue ANSI256],
                            client_profile := ANSI\<rparr>" ANSI256 ANSI]
  by (simp add: terminal_session_def spec_capability_max_def profileNames_def warning_line_def)

text \<open>
  Claim C2 as stated fails: a client with Ascii under a stored TrueColor gets TrueColor,
  not the minimum Ascii, and the warning is written although the client's profile is not
  above the stored one.
\<close>

theorem MakeRenderer_min_counterexample:
  "MakeRenderer (terminal_session\<lparr>ctx_values := [minColorProfileKey \<mapsto> ProfileValue TrueColor],
                                  client_profile := Ascii\<rparr>)
     = Inr (\<lparr>colorProfile = TrueColor\<rparr>,
            terminal_session\<lparr>ctx_values := [minColorProfileKey \<mapsto> ProfileValue TrueColor],
                             client_profile := Ascii,
                             written := warning_line ''Ascii'' ''TrueColor''\<rparr>)
   \<and> spec_capability_min Ascii TrueColor = Ascii
   \<and> \<not> spec_capability_rank Ascii > spec_capability_rank TrueColor"
  by (simp add: MakeRenderer_def lookup_profile_def newRenderer_def profileNames_at_def
      profileNames_def terminal_session_def spec_capability_min_def Let_def)

text \<open>
  Claim C7, as amended. On a session whose context holds no profile under the key,
  \<open>MakeRenderer\<close> returns a renderer without panicking. The lookup falls back to Ascii as
  the minimum to force, and since no client profile has fewer colors than Ascii nothing is
  forced: the renderer keeps the profile \<open>newRenderer\<close> detected for the client and
  nothing is written to the session, exactly as when Ascii had been stored.
\<close>

theorem MakeRenderer_without_stored_profile:
  assumes "\<forall>cp. ctx_values s minColorProfileKey \<noteq> Some (ProfileValue cp)"
  shows "lookup_profile s = Ascii
       \<and> MakeRenderer s = Inr (\<lparr>colorProfile = client_profile s\<rparr>, s)
       \<and> MakeRenderer (SetValue minColorProfileKey (ProfileValue Ascii) s)
           = Inr (\<lparr>colorProfile = client_profile s\<rparr>,
                  SetValue minColorProfileKey (ProfileValue Ascii) s)"
proof -
  have l: "lookup_profile s = Ascii"
    using assms by (auto simp: lookup_profile_def split: option.splits ctx_value.splits)
  have l': "lookup_profile (SetValue minColorProfileKey (ProfileValue Ascii) s) = Ascii"
    by (simp add: lookup_profile_def SetValue_def)
  have c: "client_profile (SetValue minColorProfileKey (ProfileValue Ascii) s) = client_profile s"
    by (simp add: SetValue_def)
  have le: "\<not> profile_int (client_profile s) > profile_int Ascii"
    by (cases "client_profile s") simp_all
  from l l' c le show ?thesis
    by (simp add: MakeRenderer_def newRenderer_def Let_def)
qed

text \<open>A client with 256 colors and nothing stored keeps its 256 colors.\<close>

theorem MakeRenderer_without_stored_profile_witness:
  "MakeRenderer (terminal_session\<lparr>client_profile := ANSI256\<rparr>)
     = Inr (\<lparr>colorProfile = ANSI256\<rparr>, terminal_session\<lparr>client_profile := ANSI256\<rparr>)
   \<and> lookup_profile (terminal_session\<lparr>client_profile := ANSI256\<rparr>) = Ascii"
  using MakeRenderer_without_stored_profile [of "terminal_session\<lparr>client_profile := ANSI256\<rparr>"]
  by (simp add: terminal_session_def)

text \<open>
  Claim C7 as stated fails: with nothing stored, the renderer returned for a client that
  announces true color has the profile TrueColor, not Ascii.
\<close>

theorem MakeRenderer_default_counterexample:
  "ctx_values terminal_session minColorProfileKey = None
   \<and> MakeRenderer terminal_session = Inr (\<lparr>colorProfile = TrueColor\<rparr>, terminal_session)
   \<and> TrueColor \<noteq> Ascii"
  by (simp add: MakeRenderer_def lookup_profile_def newRenderer_def terminal_session_def Let_def)

section \<open>Environment lookup\<close>

lemma HasPrefix_append: "HasPrefix v p \<longleftrightarrow> (\<exists>r. v = p @ r)"
  by (auto simp: HasPrefix_def) (metis append_take_drop_id)

text \<open>
  Claim C10. \<open>Getenv e k\<close> is the empty string when no element of \<open>e\<close> starts with
  \<open>k=\<close>; when \<open>v\<close> is the first element that does, it is \<open>v\<close> without its first
  \<open>length k + 1\<close> bytes, which is what follows \<open>k=\<close> in \<open>v\<close>. The list is only read:
  \<open>Environ\<close> still returns it as it was.
\<close>

theorem Getenv_first_match:
  "((\<forall>v \<in> set e. \<not> HasPrefix v (k @ ''='')) \<longrightarrow> Getenv e k = '''')
   \<and> (e = xs @ v # ys \<and> (\<forall>u \<in> set xs. \<not> HasPrefix u (k @ ''='')) \<and> HasPrefix v (k @ ''='')
        \<longrightarrow> Getenv e k = drop (length k + 1) v \<and> v = k @ ''='' @ Getenv e k)
   \<and> Environ e = e"
proof (intro conjI impI)
  show "Getenv e k = ''''" if "\<forall>v \<in> set e. \<not> HasPrefix v (k @ ''='')"
    using that by (induction e) simp_all
next
  assume h: "e = xs @ v # ys \<and> (\<forall>u \<in> set xs. \<not> HasPrefix u (k @ ''='')) \<and> HasPrefix v (k @ ''='')"
  from h have nx: "\<forall>u \<in> set xs. \<not> HasPrefix u (k @ ''='')" and hv: "HasPrefix v (k @ ''='')"
    by simp_all
  have "Getenv (xs @ v # ys) k = drop (length k + 1) v"
    using nx hv by (induction xs) simp_all
  with h show g: "Getenv e k = drop (length k + 1) v" by simp
  from h obtain r where "v = (k @ ''='') @ r" using HasPrefix_append by blast
  with g show "v = k @ ''='' @ Getenv e k" by simp
next
  show "Environ e = e" by (simp add: Environ_def)
qed

theorem Getenv_first_match_witness:
  "Getenv [''LANG=C'', ''TERM=xterm'', ''TERM=vt100''] ''TERM'' = ''xterm''
   \<and> Getenv [''LANG=C'', ''TERM=xterm'', ''TERM=vt100''] ''HOME'' = ''''"
  using Getenv_first_match [of "[''LANG=C'', ''TERM=xterm'', ''TERM=vt100'']" "''TERM''"
      "[''LANG=C'']" "''TERM=xterm''" "[''TERM=vt100'']"]
    Getenv_first_match [of "[''LANG=C'', ''TERM=xterm'', ''TERM=vt100'']" "''HOME''"]
  by (simp add: HasPrefix_def)

section \<open>The handler of a session\<close>

subsection \<open>Shapes of the trace\<close>

lemma before_run_return_main:
  "is_main_event e \<Longrightarrow>
     e \<in> set (before_run_return tr) \<longleftrightarrow> e \<in> set (before_run_return (main_events tr))"
  using mem_main_events [of e "before_run_return tr"]
  by (simp add: main_events_before_run_return)

lemma main_shape:
  assumes "main_inv bth p s st"
  shows "main_inv_pc p (pty_ok s) (bth (SetValue minColorProfileKey (ProfileValue p) s) = None)
           (pc st) (main_events (trace st))"
  using assms by (simp add: main_inv_def)

lemma after_return_progress:
  assumes "pc st = PcRunReturned err"
  shows "pc (foldl (step bth p) st [MainStep, MainStep, MainStep, MainStep]) = PcDone
       \<and> trace (foldl (step bth p) st [MainStep, MainStep, MainStep, MainStep])
           = trace st @ (case err of None \<Rightarrow> [] | Some e \<Rightarrow> [EvLogError e]) @ [EvKill, EvCancel, EvNext]"
  using assms by (cases err) (simp_all add: main_step_def emit_def)

lemma occurrences_append:
  "occurrences x (tr @ tr') = occurrences x tr + occurrences x tr'"
  by (simp add: occurrences_def)

lemma ran_events_Some:
  "ran_events p (Some e) = [EvSetValue p, EvFactory, EvSpawnRelay, EvRunCall, EvRunReturn (Some e), EvLogError e]"
  by (simp add: ran_events_def)

lemma ran_events_None:
  "ran_events p None = [EvSetValue p, EvFactory, EvSpawnRelay, EvRunCall, EvRunReturn None]"
  by (simp add: ran_events_def)

lemma before_run_return_simps:
  "before_run_return [] = []"
  "before_run_return (e # tr) = (if is_run_return e then [] else e # before_run_return tr)"
  by (simp_all add: before_run_return_def)

lemma ran_events_facts:
  "occurrences EvKill (ran_events p err) = 0"
  "occurrences EvCancel (ran_events p err) = 0"
  "before_run_return (ran_events p err @ tr) = [EvSetValue p, EvFactory, EvSpawnRelay, EvRunCall]"
  "before_run_return (ran_events p err) = [EvSetValue p, EvFactory, EvSpawnRelay, EvRunCall]"
  "EvRunReturn err' \<in> set (ran_events p err) \<longleftrightarrow> err' = err"
  "EvRunCall \<in> set (ran_events p err)"
  by (cases err; simp add: ran_events_Some ran_events_None before_run_return_def; fail)+

lemma no_pty_cases:
  assumes "\<not> pty_ok s" and "main_inv bth p s st"
  shows "(pc st = PcSetValue \<and> sess st = s \<and> main_events (trace st) = [])
       \<or> (pc st = PcPty \<and> sess st = SetValue minColorProfileKey (ProfileValue p) s
           \<and> main_events (trace st) = [EvSetValue p])
       \<or> (pc st = PcDone
           \<and> main_events (trace st) = [EvSetValue p, EvFatalln ''no active terminal, skipping''])"
  using assms by (cases "pc st") (auto simp: main_inv_def)

lemma no_pty_prog: "\<not> pty_ok s \<Longrightarrow> main_inv bth p s st \<Longrightarrow> prog st = None"
  by (auto simp: main_inv_def)

lemma no_pty_relay:
  "\<not> pty_ok s \<Longrightarrow> main_inv bth p s st \<Longrightarrow> relay_inv st \<Longrightarrow> relay st = RelayNotStarted"
  using no_pty_cases [of s bth p st]
  by (auto simp: relay_inv_def mem_main_events [of EvSpawnRelay "trace st", symmetric])

lemma declined_cases:
  assumes "pty_ok s" and "bth (SetValue minColorProfileKey (ProfileValue p) s) = None"
    and "main_inv bth p s st"
  shows "(pc st = PcSetValue \<and> sess st = s \<and> main_events (trace st) = [])
       \<or> (pc st = PcPty \<and> sess st = SetValue minColorProfileKey (ProfileValue p) s
           \<and> main_events (trace st) = [EvSetValue p])
       \<or> (pc st = PcFactory \<and> sess st = SetValue minColorProfileKey (ProfileValue p) s
           \<and> main_events (trace st) = [EvSetValue p])
       \<or> (pc st = PcDecline \<and> main_events (trace st) = [EvSetValue p, EvFactory])
       \<or> (pc st = PcDone \<and> main_events (trace st) = [EvSetValue p, EvFactory, EvNext])"
  using assms by (cases "pc st") (auto simp: main_inv_def)

lemma relay_returns_by:
  "relay (step bth p st a) = RelayReturned \<Longrightarrow> relay st \<noteq> RelayReturned \<Longrightarrow> a = RelayDone"
proof (cases a)
  case MainStep
  assume "relay (step bth p st a) = RelayReturned" "relay st \<noteq> RelayReturned"
  with MainStep show ?thesis
    by (cases "pc st") (auto simp: main_step_def emit_def split: option.splits if_splits)
qed (auto simp: relay_recv_def run_returns_def resize_def close_feed_def parent_cancel_def
       emit_def split: list.splits if_splits)

lemma quit_emitted_by:
  "occurrences EvQuit (trace (step bth p st a)) \<noteq> occurrences EvQuit (trace st) \<Longrightarrow> a = RelayDone"
proof (cases a)
  case MainStep
  assume "occurrences EvQuit (trace (step bth p st a)) \<noteq> occurrences EvQuit (trace st)"
  with MainStep show ?thesis
    by (cases "pc st") (auto simp: main_step_def emit_def split: option.splits if_splits)
qed (auto simp: relay_recv_def run_returns_def resize_def close_feed_def parent_cancel_def
       emit_def split: list.splits if_splits)




subsection \<open>Sessions without a terminal\<close>

text \<open>
  Claim C1, as amended. For a session without an allocated pseudo-terminal, under every
  schedule: the program handler is never invoked, so no program is built, no relay is
  spawned and \<open>p.Run\<close> is never called; the next handler is never executed either. The
  handler stores the profile, reports "no active terminal, skipping" through
  \<open>wish.Fatalln\<close> and returns; two statements of its own take it there from any state.
\<close>

theorem no_terminal_ends_session:
  assumes "\<not> pty_ok s"
  shows "(let st = MiddlewareWithProgramHandler bth p s acts; tr = trace st
          in prog st = None \<and> relay st = RelayNotStarted
             \<and> EvFactory \<notin> set tr \<and> EvSpawnRelay \<notin> set tr \<and> EvRunCall \<notin> set tr
             \<and> EvNext \<notin> set tr
             \<and> (pc st = PcDone \<longrightarrow>
                  main_events tr = [EvSetValue p, EvFatalln ''no active terminal, skipping''])
             \<and> pc (foldl (step bth p) st [MainStep, MainStep]) = PcDone)"
proof -
  define st where "st = MiddlewareWithProgramHandler bth p s acts"
  have mi: "main_inv bth p s st" and ri: "relay_inv st"
    by (simp_all add: st_def main_inv_run relay_inv_run)
  note c = no_pty_cases [OF assms mi]
  have 1: "prog st = None" using assms mi by (rule no_pty_prog)
  have 2: "relay st = RelayNotStarted" using assms mi ri by (rule no_pty_relay)
  have 3: "EvFactory \<notin> set (trace st)"
    using c by (auto simp: mem_main_events [of EvFactory "trace st", symmetric])
  have 4: "EvSpawnRelay \<notin> set (trace st)"
    using c by (auto simp: mem_main_events [of EvSpawnRelay "trace st", symmetric])
  have 5: "EvRunCall \<notin> set (trace st)"
    using c by (auto simp: mem_main_events [of EvRunCall "trace st", symmetric])
  have 6: "EvNext \<notin> set (trace st)"
    using c by (auto simp: mem_main_events [of EvNext "trace st", symmetric])
  have 7: "pc st = PcDone \<longrightarrow>
      main_events (trace st) = [EvSetValue p, EvFatalln ''no active terminal, skipping'']"
    using c by auto
  have 8: "pc (foldl (step bth p) st [MainStep, MainStep]) = PcDone"
    using c assms by (elim disjE conjE) (simp_all add: main_step_def emit_def)
  from 1 2 3 4 5 6 7 8 show ?thesis
    unfolding Let_def st_def [symmetric] by blast
qed

text \<open>A run of such a session to its end, with the surroundings moving in between.\<close>

theorem no_terminal_ends_session_witness:
  "(let st = MiddlewareWithProgramHandler accepting ANSI plain_session
               [Resize \<lparr>Width = 80, Height = 24\<rparr>, MainStep, ParentCancel, MainStep, MainStep]
    in pc st = PcDone \<and> prog st = None \<and> relay st = RelayNotStarted
       \<and> main_events (trace st) = [EvSetValue ANSI, EvFatalln ''no active terminal, skipping''])"
  using no_terminal_ends_session [of plain_session accepting ANSI
      "[Resize \<lparr>Width = 80, Height = 24\<rparr>, MainStep, ParentCancel, MainStep, MainStep]"]
  by (simp add: plain_session_def MiddlewareWithProgramHandler_def init_def main_step_def
      resize_def parent_cancel_def emit_def SetValue_def Let_def)

text \<open>
  Claim C1 as stated fails: the handler of a session without a terminal returns without
  having executed the next handler once.
\<close>

theorem no_terminal_next_handler_counterexample:
  "pc (MiddlewareWithProgramHandler accepting ANSI plain_session [MainStep, MainStep]) = PcDone
   \<and> trace (MiddlewareWithProgramHandler accepting ANSI plain_session [MainStep, MainStep])
       = [EvSetValue ANSI, EvFatalln ''no active terminal, skipping'']
   \<and> occurrences EvNext
        (trace (MiddlewareWithProgramHandler accepting ANSI plain_session [MainStep, MainStep])) \<noteq> 1"
  by (simp add: plain_session_def MiddlewareWithProgramHandler_def init_def main_step_def
      emit_def SetValue_def)

subsection \<open>Sessions the program handler declines\<close>

text \<open>
  Claim C3. For a session with a terminal for which the program handler returns nil, under
  every schedule: no program is held, the relay is never spawned, \<open>p.Run\<close>, \<open>p.Kill\<close> and
  \<open>p.Quit\<close> are never called, the next handler is executed at most once and exactly once
  when the handler has returned, which four statements of its own achieve from any state.
  In the declarative shape, a handler returning a nil model makes
  \<open>newDefaultProgramHandler\<close> return nil.
\<close>

theorem declined_session_falls_through:
  assumes "pty_ok s" and "bth (SetValue minColorProfileKey (ProfileValue p) s) = None"
  shows "(let st = MiddlewareWithProgramHandler bth p s acts; tr = trace st
          in prog st = None \<and> relay st = RelayNotStarted
             \<and> EvSpawnRelay \<notin> set tr \<and> EvRunCall \<notin> set tr \<and> EvKill \<notin> set tr
             \<and> EvQuit \<notin> set tr
             \<and> occurrences EvNext tr \<le> 1
             \<and> (pc st = PcDone \<longrightarrow> occurrences EvNext tr = 1)
             \<and> pc (foldl (step bth p) st [MainStep, MainStep, MainStep, MainStep]) = PcDone)
         \<and> (\<forall>makeOpts h x. fst (h x) = None \<longrightarrow> newDefaultProgramHandler makeOpts h x = None)"
proof -
  define st where "st = MiddlewareWithProgramHandler bth p s acts"
  have mi: "main_inv bth p s st" and ri: "relay_inv st"
    by (simp_all add: st_def main_inv_run relay_inv_run)
  note c = declined_cases [OF assms mi]
  have 1: "prog st = None" using assms mi by (auto simp: main_inv_def)
  have 3: "EvSpawnRelay \<notin> set (trace st)"
    using c by (auto simp: mem_main_events [of EvSpawnRelay "trace st", symmetric])
  have 2: "relay st = RelayNotStarted" using 3 ri by (simp add: relay_inv_def)
  have 4: "EvRunCall \<notin> set (trace st)"
    using c by (auto simp: mem_main_events [of EvRunCall "trace st", symmetric])
  have 5: "EvKill \<notin> set (trace st)"
    using c by (auto simp: mem_main_events [of EvKill "trace st", symmetric])
  have 6: "EvQuit \<notin> set (trace st)"
    using ri 2 occurrences_0_iff [of EvQuit "trace st"] by (simp add: relay_inv_def)
  have 7: "occurrences EvNext (trace st) \<le> 1"
    using c by (auto simp: occurrences_main_events [of EvNext "trace st", symmetric])
  have 8: "pc st = PcDone \<longrightarrow> occurrences EvNext (trace st) = 1"
    using c by (auto simp: occurrences_main_events [of EvNext "trace st", symmetric])
  have 9: "pc (foldl (step bth p) st [MainStep, MainStep, MainStep, MainStep]) = PcDone"
    using c assms by (elim disjE conjE) (simp_all add: main_step_def emit_def)
  have 10: "\<forall>makeOpts h x. fst (h x) = None \<longrightarrow> newDefaultProgramHandler makeOpts h x = None"
    by (auto simp: newDefaultProgramHandler_def split: prod.splits)
  from 1 2 3 4 5 6 7 8 9 10 show ?thesis
    unfolding Let_def st_def [symmetric] by blast
qed

text \<open>A declined session, in the direct and in the declarative shape.\<close>

theorem declined_session_falls_through_witness:
  "(let st = MiddlewareWithProgramHandler declining ANSI terminal_session
               [MainStep, Resize \<lparr>Width = 80, Height = 24\<rparr>, MainStep, RelayRecv, MainStep,
                RunReturns None, MainStep]
    in pc st = PcDone \<and> relay st = RelayNotStarted
       \<and> trace st = [EvSetValue ANSI, EvResize \<lparr>Width = 80, Height = 24\<rparr>, EvFactory, EvNext])
   \<and> (let st = Middleware (\<lambda>s. [1::nat]) (\<lambda>s. (None :: nat option, [2])) terminal_session
                 [MainStep, MainStep, MainStep, MainStep]
      in pc st = PcDone \<and> relay st = RelayNotStarted
         \<and> trace st = [EvSetValue Ascii, EvFactory, EvNext])"
  using declined_session_falls_through [of terminal_session declining ANSI
      "[MainStep, Resize \<lparr>Width = 80, Height = 24\<rparr>, MainStep, RelayRecv, MainStep,
        RunReturns None, MainStep]"]
    declined_session_falls_through [of terminal_session
      "newDefaultProgramHandler (\<lambda>s. [1::nat]) (\<lambda>s. (None :: nat option, [2]))" Ascii
      "[MainStep, MainStep, MainStep, MainStep]"]
  by (simp add: terminal_session_def declining_def Middleware_def MiddlewareWithProgramHandler_def
      init_def main_step_def resize_def relay_recv_def run_returns_def emit_def SetValue_def
      Let_def newDefaultProgramHandler_def)

subsection \<open>The stored capability\<close>

text \<open>
  Claim C9. Under every schedule the session is the one given until the first statement
  has run and from then on that session with the profile stored under the key: the entry
  holds \<open>p\<close> for the rest of the session. The store happens exactly once, nothing else is
  ever stored by the handler, and neither the program handler nor \<open>p.Run\<close> is called
  before it.
\<close>

theorem capability_stored_first_and_once:
  "(let st = MiddlewareWithProgramHandler bth p s acts; tr = trace st
    in sess st = (if pc st = PcSetValue then s
                  else SetValue minColorProfileKey (ProfileValue p) s)
       \<and> (pc st \<noteq> PcSetValue \<longrightarrow>
             ctx_values (sess st) minColorProfileKey = Some (ProfileValue p))
       \<and> occurrences (EvSetValue q) tr = (if q = p \<and> pc st \<noteq> PcSetValue then 1 else 0)
       \<and> EvFactory \<notin> set (before_set_value p tr)
       \<and> EvRunCall \<notin> set (before_set_value p tr)
       \<and> (EvFactory \<in> set tr \<or> EvRunCall \<in> set tr \<longrightarrow> EvSetValue p \<in> set tr))"
proof -
  define st where "st = MiddlewareWithProgramHandler bth p s acts"
  define m where "m = main_events (trace st)"
  have mi: "main_inv bth p s st"
    by (simp add: st_def main_inv_run)
  have 1: "sess st = (if pc st = PcSetValue then s
                      else SetValue minColorProfileKey (ProfileValue p) s)"
    using mi by (simp add: main_inv_def)
  then have 2: "pc st \<noteq> PcSetValue \<longrightarrow>
      ctx_values (sess st) minColorProfileKey = Some (ProfileValue p)"
    by (simp add: SetValue_def)
  have shape: "(pc st = PcSetValue \<and> m = [])
      \<or> (pc st \<noteq> PcSetValue \<and> (\<exists>rest. m = EvSetValue p # rest \<and> (\<forall>q. EvSetValue q \<notin> set rest)))"
    using mi unfolding m_def
    by (cases "pc st") (auto simp: main_inv_def ran_events_def split: if_splits option.splits)
  have o: "occurrences (EvSetValue q) (trace st) = occurrences (EvSetValue q) m"
    by (simp add: m_def occurrences_main_events)
  have 3: "occurrences (EvSetValue q) (trace st) = (if q = p \<and> pc st \<noteq> PcSetValue then 1 else 0)"
    unfolding o using shape by (auto simp: occurrences_0_iff)
  have "before_set_value p m = []"
    using shape by (auto simp: before_set_value_def)
  then have bm: "main_events (before_set_value p (trace st)) = []"
    by (simp add: main_events_before_set_value m_def)
  have 4: "EvFactory \<notin> set (before_set_value p (trace st))"
    using bm mem_main_events [of EvFactory "before_set_value p (trace st)"] by simp
  have 5: "EvRunCall \<notin> set (before_set_value p (trace st))"
    using bm mem_main_events [of EvRunCall "before_set_value p (trace st)"] by simp
  have f: "EvFactory \<in> set (trace st) \<longleftrightarrow> EvFactory \<in> set m"
    and r: "EvRunCall \<in> set (trace st) \<longleftrightarrow> EvRunCall \<in> set m"
    and v: "EvSetValue p \<in> set (trace st) \<longleftrightarrow> EvSetValue p \<in> set m"
    by (simp_all add: m_def mem_main_events)
  have 6: "EvFactory \<in> set (trace st) \<or> EvRunCall \<in> set (trace st) \<longrightarrow> EvSetValue p \<in> set (trace st)"
    unfolding f r v using shape by auto
  from 1 2 3 4 5 6 show ?thesis
    unfolding Let_def st_def [symmetric] by blast
qed

text \<open>A session run to its end.\<close>

theorem capability_stored_first_and_once_witness:
  "(let st = MiddlewareWithProgramHandler accepting ANSI terminal_session
               [MainStep, MainStep, MainStep, MainStep, MainStep,
                RunReturns None, MainStep, MainStep, MainStep, MainStep]
    in pc st = PcDone
       \<and> ctx_values (sess st) minColorProfileKey = Some (ProfileValue ANSI)
       \<and> trace st = [EvSetValue ANSI, EvFactory, EvSpawnRelay, EvRunCall, EvRunReturn None,
                      EvKill, EvCancel, EvNext]
       \<and> occurrences (EvSetValue ANSI) (trace st) = 1
       \<and> before_set_value ANSI (trace st) = [])"
  using capability_stored_first_and_once [of accepting ANSI terminal_session
      "[MainStep, MainStep, MainStep, MainStep, MainStep,
        RunReturns None, MainStep, MainStep, MainStep, MainStep]" ANSI]
  by (simp add: terminal_session_def accepting_def MiddlewareWithProgramHandler_def init_def
      main_step_def run_returns_def emit_def SetValue_def before_set_value_def Let_def)

subsection \<open>Teardown after the program has run\<close>

text \<open>
  Claim C4. Under every schedule \<open>p.Kill\<close> and \<open>cancel\<close> are each called at most once and
  never before \<open>p.Run\<close> has returned. In a session whose \<open>p.Run\<close> was called and whose
  handler has returned, each was called exactly once. Once \<open>p.Run\<close> has returned, with nil
  or with any error and whatever the surroundings did before, four statements of the
  handler's own take it to its end, with exactly one call of each.
\<close>

theorem kill_and_cancel_once_after_run:
  "(let st = MiddlewareWithProgramHandler bth p s acts; tr = trace st
    in occurrences EvKill tr \<le> 1 \<and> occurrences EvCancel tr \<le> 1
       \<and> EvKill \<notin> set (before_run_return tr) \<and> EvCancel \<notin> set (before_run_return tr)
       \<and> (EvRunCall \<in> set tr \<and> pc st = PcDone \<longrightarrow>
             occurrences EvKill tr = 1 \<and> occurrences EvCancel tr = 1)
       \<and> (\<forall>err. pc st = PcRunReturned err \<longrightarrow>
             (let st' = foldl (step bth p) st [MainStep, MainStep, MainStep, MainStep]
              in pc st' = PcDone \<and> occurrences EvKill (trace st') = 1
                 \<and> occurrences EvCancel (trace st') = 1)))"
proof -
  define st where "st = MiddlewareWithProgramHandler bth p s acts"
  define m where "m = main_events (trace st)"
  have mi: "main_inv bth p s st"
    by (simp add: st_def main_inv_run)
  note sh = main_shape [OF mi, folded m_def]
  have k: "occurrences EvKill (trace st) = occurrences EvKill m"
    and c: "occurrences EvCancel (trace st) = occurrences EvCancel m"
    by (simp_all add: m_def occurrences_main_events)
  have bk: "EvKill \<in> set (before_run_return (trace st)) \<longleftrightarrow> EvKill \<in> set (before_run_return m)"
    and bc: "EvCancel \<in> set (before_run_return (trace st)) \<longleftrightarrow> EvCancel \<in> set (before_run_return m)"
    and rc: "EvRunCall \<in> set (trace st) \<longleftrightarrow> EvRunCall \<in> set m"
    by (simp_all add: m_def before_run_return_main [of _ "trace st"] mem_main_events)
  have 1: "occurrences EvKill (trace st) \<le> 1"
    unfolding k using sh
    by (cases "pc st") (auto simp: ran_events_facts occurrences_append split: if_splits)
  have 2: "occurrences EvCancel (trace st) \<le> 1"
    unfolding c using sh
    by (cases "pc st") (auto simp: ran_events_facts occurrences_append split: if_splits)
  have 3: "EvKill \<notin> set (before_run_return (trace st))"
    unfolding bk using sh
    by (cases "pc st") (auto simp: ran_events_facts before_run_return_simps split: if_splits)
  have 4: "EvCancel \<notin> set (before_run_return (trace st))"
    unfolding bc using sh
    by (cases "pc st") (auto simp: ran_events_facts before_run_return_simps split: if_splits)
  have 5: "EvRunCall \<in> set (trace st) \<and> pc st = PcDone \<longrightarrow>
      occurrences EvKill (trace st) = 1 \<and> occurrences EvCancel (trace st) = 1"
    unfolding k c rc using sh
    by (cases "pc st") (auto simp: ran_events_facts occurrences_append split: if_splits)
  have 6: "pc st' = PcDone \<and> occurrences EvKill (trace st') = 1 \<and> occurrences EvCancel (trace st') = 1"
    if r: "pc st = PcRunReturned err"
      and st': "st' = foldl (step bth p) st [MainStep, MainStep, MainStep, MainStep]"
    for err st'
  proof -
    have z: "occurrences EvKill (trace st) = 0 \<and> occurrences EvCancel (trace st) = 0"
      unfolding k c using sh r by simp
    note pr = after_return_progress [OF r, of bth p, folded st']
    from pr z show ?thesis
      by (cases err) (simp_all add: occurrences_append)
  qed
  from 1 2 3 4 5 6 show ?thesis
    unfolding Let_def st_def [symmetric] by blast
qed

text \<open>A session whose context is cancelled while the program runs.\<close>

theorem kill_and_cancel_once_after_run_witness:
  "(let st = MiddlewareWithProgramHandler accepting ANSI terminal_session
               [MainStep, MainStep, MainStep, MainStep, MainStep, ParentCancel,
                RunReturns None, RelayDone, MainStep, MainStep, MainStep, MainStep]
    in pc st = PcDone
       \<and> trace st = [EvSetValue ANSI, EvFactory, EvSpawnRelay, EvRunCall, EvParentCancel,
                      EvRunReturn None, EvQuit, EvKill, EvCancel, EvNext]
       \<and> occurrences EvKill (trace st) = 1 \<and> occurrences EvCancel (trace st) = 1
       \<and> before_run_return (trace st)
           = [EvSetValue ANSI, EvFactory, EvSpawnRelay, EvRunCall, EvParentCancel])
   \<and> (let st = MiddlewareWithProgramHandler accepting ANSI terminal_session
                 [MainStep, MainStep, MainStep, MainStep, MainStep, RunReturns (Some ''lost'')];
          st' = foldl (step accepting ANSI) st [MainStep, MainStep, MainStep, MainStep]
      in pc st = PcRunReturned (Some ''lost'') \<and> pc st' = PcDone
         \<and> occurrences EvKill (trace st') = 1 \<and> occurrences EvCancel (trace st') = 1)"
  using kill_and_cancel_once_after_run [of accepting ANSI terminal_session
      "[MainStep, MainStep, MainStep, MainStep, MainStep, ParentCancel,
        RunReturns None, RelayDone, MainStep, MainStep, MainStep, MainStep]"]
    kill_and_cancel_once_after_run [of accepting ANSI terminal_session
      "[MainStep, MainStep, MainStep, MainStep, MainStep, RunReturns (Some ''lost'')]"]
  by (simp add: terminal_session_def accepting_def MiddlewareWithProgramHandler_def init_def
      main_step_def parent_cancel_def run_returns_def relay_done_def ctx_done_def emit_def
      SetValue_def before_run_return_def Let_def)

text \<open>
  Claim C6. In a session whose \<open>p.Run\<close> has returned the error \<open>e\<close>, what the handler's
  task does is a prefix of: store, program handler, spawn, run, return of \<open>e\<close>, log of
  \<open>e\<close>, kill, cancel, next handler; it is all of it when the handler has returned. From
  the return of \<open>e\<close>, four statements of the handler's own log \<open>e\<close>, kill, cancel and
  execute the next handler, and the handler returns as it does without an error.
\<close>

theorem run_error_logged_and_torn_down:
  "(let st = MiddlewareWithProgramHandler bth p s acts; tr = trace st;
        full = [EvSetValue p, EvFactory, EvSpawnRelay, EvRunCall, EvRunReturn (Some e),
                EvLogError e, EvKill, EvCancel, EvNext]
    in (EvRunReturn (Some e) \<in> set tr \<longrightarrow>
          prefix (main_events tr) full \<and> (pc st = PcDone \<longrightarrow> main_events tr = full))
       \<and> (pc st = PcRunReturned (Some e) \<longrightarrow>
            (let st' = foldl (step bth p) st [MainStep, MainStep, MainStep, MainStep]
             in pc st' = PcDone \<and> trace st' = tr @ [EvLogError e, EvKill, EvCancel, EvNext]
                \<and> main_events (trace st') = full)))"
proof -
  define st where "st = MiddlewareWithProgramHandler bth p s acts"
  define m where "m = main_events (trace st)"
  define full where "full = [EvSetValue p, EvFactory, EvSpawnRelay, EvRunCall,
    EvRunReturn (Some e), EvLogError e, EvKill, EvCancel, EvNext]"
  have mi: "main_inv bth p s st"
    by (simp add: st_def main_inv_run)
  note sh = main_shape [OF mi, folded m_def]
  have rr: "EvRunReturn (Some e) \<in> set (trace st) \<longleftrightarrow> EvRunReturn (Some e) \<in> set m"
    by (simp add: m_def mem_main_events)
  have 1: "prefix m full \<and> (pc st = PcDone \<longrightarrow> m = full)" if "EvRunReturn (Some e) \<in> set (trace st)"
  proof -
    from that have im: "EvRunReturn (Some e) \<in> set m" by (simp add: rr)
    show ?thesis
    proof (cases "pc st")
      case (PcRunReturned err)
      with sh im show ?thesis by (auto simp: full_def)
    next
      case PcKill
      with sh im show ?thesis by (auto simp: full_def ran_events_facts ran_events_Some)
    next
      case PcCancel
      with sh im show ?thesis by (auto simp: full_def ran_events_facts ran_events_Some)
    next
      case PcNext
      with sh im show ?thesis by (auto simp: full_def ran_events_facts ran_events_Some)
    next
      case PcDone
      with sh im show ?thesis by (auto simp: full_def ran_events_facts ran_events_Some split: if_splits)
    qed (use sh im in simp_all)
  qed
  have 2: "pc st' = PcDone \<and> trace st' = trace st @ [EvLogError e, EvKill, EvCancel, EvNext]
      \<and> main_events (trace st') = full"
    if r: "pc st = PcRunReturned (Some e)"
      and st': "st' = foldl (step bth p) st [MainStep, MainStep, MainStep, MainStep]"
    for st'
  proof -
    note pr = after_return_progress [OF r, of bth p, folded st']
    have "m = [EvSetValue p, EvFactory, EvSpawnRelay, EvRunCall, EvRunReturn (Some e)]"
      using sh r by simp
    then have "main_events (trace st @ [EvLogError e, EvKill, EvCancel, EvNext]) = full"
      by (simp add: full_def m_def main_events_def)
    with pr show ?thesis by simp
  qed
  from 1 2 show ?thesis
    unfolding Let_def st_def [symmetric] m_def [symmetric] full_def [symmetric] by blast
qed

text \<open>A session whose program fails.\<close>

theorem run_error_logged_and_torn_down_witness:
  "(let st = MiddlewareWithProgramHandler accepting ANSI terminal_session
               [MainStep, MainStep, MainStep, MainStep, MainStep,
                RunReturns (Some ''boom''), MainStep, MainStep, MainStep, MainStep]
    in pc st = PcDone
       \<and> trace st = [EvSetValue ANSI, EvFactory, EvSpawnRelay, EvRunCall,
                      EvRunReturn (Some ''boom''), EvLogError ''boom'', EvKill, EvCancel, EvNext])
   \<and> (let st = MiddlewareWithProgramHandler accepting ANSI terminal_session
                 [MainStep, MainStep, MainStep, MainStep, MainStep,
                  Resize \<lparr>Width = 80, Height = 24\<rparr>, RunReturns (Some ''boom''), RelayRecv];
          st' = foldl (step accepting ANSI) st [MainStep, MainStep, MainStep, MainStep]
      in pc st = PcRunReturned (Some ''boom'') \<and> pc st' = PcDone
         \<and> trace st' = trace st @ [EvLogError ''boom'', EvKill, EvCancel, EvNext])"
  using run_error_logged_and_torn_down [of accepting ANSI terminal_session
      "[MainStep, MainStep, MainStep, MainStep, MainStep,
        RunReturns (Some ''boom''), MainStep, MainStep, MainStep, MainStep]" "''boom''"]
    run_error_logged_and_torn_down [of accepting ANSI terminal_session
      "[MainStep, MainStep, MainStep, MainStep, MainStep,
        Resize \<lparr>Width = 80, Height = 24\<rparr>, RunReturns (Some ''boom''), RelayRecv]" "''boom''"]
  by (simp add: terminal_session_def accepting_def MiddlewareWithProgramHandler_def init_def
      main_step_def run_returns_def resize_def relay_recv_def emit_def SetValue_def Let_def)

subsection \<open>The relay\<close>

text \<open>
  Claim C8. Under every schedule: the relay has returned only if its context is done, that
  is, \<open>cancel\<close> was called or the session's context was cancelled; \<open>p.Quit\<close> was called
  once if the relay has returned and never otherwise; the only move that makes the relay
  return, and the only one that calls \<open>p.Quit\<close>, is its select taking \<open>ctx.Done()\<close> with
  the context done, and that move calls \<open>p.Quit\<close> once and returns. With the feed closed
  and the context not done the relay has not returned, and neither case of its select
  makes it return.
\<close>

theorem relay_returns_only_on_cancellation:
  "(let st = MiddlewareWithProgramHandler bth p s acts; tr = trace st
    in (relay st = RelayReturned \<longrightarrow> ctx_done st)
       \<and> (ctx_done st \<longleftrightarrow> EvCancel \<in> set tr \<or> EvParentCancel \<in> set tr)
       \<and> occurrences EvQuit tr = (if relay st = RelayReturned then 1 else 0)
       \<and> (\<forall>a. relay (step bth p st a) = RelayReturned \<and> relay st \<noteq> RelayReturned
              \<longrightarrow> a = RelayDone \<and> ctx_done st)
       \<and> (\<forall>a. occurrences EvQuit (trace (step bth p st a)) \<noteq> occurrences EvQuit tr
              \<longrightarrow> a = RelayDone \<and> ctx_done st)
       \<and> (relay st = RelayLoop \<and> ctx_done st \<longrightarrow>
             relay (step bth p st RelayDone) = RelayReturned
             \<and> trace (step bth p st RelayDone) = tr @ [EvQuit])
       \<and> (winch_closed st \<and> \<not> ctx_done st \<longrightarrow>
             relay st \<noteq> RelayReturned
             \<and> relay (step bth p st RelayRecv) = relay st
             \<and> relay (step bth p st RelayDone) = relay st))"
proof -
  define st where "st = MiddlewareWithProgramHandler bth p s acts"
  have ri: "relay_inv st" and fi: "flags_inv st"
    by (simp_all add: st_def relay_inv_run flags_inv_run)
  have 1: "relay st = RelayReturned \<longrightarrow> ctx_done st"
    using ri by (simp add: relay_inv_def)
  have 2: "ctx_done st \<longleftrightarrow> EvCancel \<in> set (trace st) \<or> EvParentCancel \<in> set (trace st)"
    using fi by (simp add: flags_inv_def ctx_done_def)
  have 3: "occurrences EvQuit (trace st) = (if relay st = RelayReturned then 1 else 0)"
    using ri by (simp add: relay_inv_def)
  have 4: "a = RelayDone \<and> ctx_done st"
    if "relay (step bth p st a) = RelayReturned \<and> relay st \<noteq> RelayReturned" for a
  proof -
    from that have a: "a = RelayDone" using relay_returns_by by blast
    with that show ?thesis by (auto simp: relay_done_def split: if_splits)
  qed
  have 5: "a = RelayDone \<and> ctx_done st"
    if "occurrences EvQuit (trace (step bth p st a)) \<noteq> occurrences EvQuit (trace st)" for a
  proof -
    from that have a: "a = RelayDone" using quit_emitted_by by blast
    with that show ?thesis by (auto simp: relay_done_def split: if_splits)
  qed
  have 6: "relay st = RelayLoop \<and> ctx_done st \<longrightarrow>
      relay (step bth p st RelayDone) = RelayReturned
      \<and> trace (step bth p st RelayDone) = trace st @ [EvQuit]"
    by (simp add: relay_done_def emit_def)
  have 7: "winch_closed st \<and> \<not> ctx_done st \<longrightarrow>
      relay st \<noteq> RelayReturned
      \<and> relay (step bth p st RelayRecv) = relay st
      \<and> relay (step bth p st RelayDone) = relay st"
    using 1 by (auto simp: relay_done_def relay_recv_def emit_def split: list.splits)
  from 1 2 3 4 5 6 7 show ?thesis
    unfolding Let_def st_def [symmetric] by blast
qed

text \<open>A relay on a closed feed keeps receiving zero values until the context is cancelled.\<close>

theorem relay_returns_only_on_cancellation_witness:
  "(let st = MiddlewareWithProgramHandler accepting ANSI terminal_session
               [MainStep, MainStep, MainStep, MainStep, MainStep, CloseFeed, RelayRecv, RelayDone]
    in relay st = RelayLoop \<and> winch_closed st \<and> \<not> ctx_done st
       \<and> trace st = [EvSetValue ANSI, EvFactory, EvSpawnRelay, EvRunCall, EvFeedClosed,
                      EvSend \<lparr>MsgWidth = 0, MsgHeight = 0\<rparr>]
       \<and> relay (step accepting ANSI st RelayRecv) = RelayLoop
       \<and> relay (step accepting ANSI st RelayDone) = RelayLoop)
   \<and> (let st = MiddlewareWithProgramHandler accepting ANSI terminal_session
                 [MainStep, MainStep, MainStep, MainStep, MainStep, CloseFeed, RelayRecv,
                  ParentCancel]
      in relay st = RelayLoop \<and> ctx_done st
         \<and> relay (step accepting ANSI st RelayDone) = RelayReturned
         \<and> trace (step accepting ANSI st RelayDone) = trace st @ [EvQuit])
   \<and> (let st = MiddlewareWithProgramHandler accepting ANSI terminal_session
                 [MainStep, MainStep, MainStep, MainStep, MainStep, RunReturns None, MainStep,
                  MainStep, MainStep, RelayDone, RelayDone]
      in relay st = RelayReturned \<and> ctx_done st \<and> occurrences EvQuit (trace st) = 1
         \<and> trace st = [EvSetValue ANSI, EvFactory, EvSpawnRelay, EvRunCall, EvRunReturn None,
                        EvKill, EvCancel, EvQuit])"
  using relay_returns_only_on_cancellation [of accepting ANSI terminal_session
      "[MainStep, MainStep, MainStep, MainStep, MainStep, CloseFeed, RelayRecv, RelayDone]"]
    relay_returns_only_on_cancellation [of accepting ANSI terminal_session
      "[MainStep, MainStep, MainStep, MainStep, MainStep, CloseFeed, RelayRecv, ParentCancel]"]
    relay_returns_only_on_cancellation [of accepting ANSI terminal_session
      "[MainStep, MainStep, MainStep, MainStep, MainStep, RunReturns None, MainStep,
        MainStep, MainStep, RelayDone, RelayDone]"]
  by (simp add: terminal_session_def accepting_def MiddlewareWithProgramHandler_def init_def
      main_step_def close_feed_def relay_recv_def relay_done_def parent_cancel_def
      run_returns_def ctx_done_def emit_def SetValue_def to_msg_def zero_Window_def Let_def)




end
